theory Spec2Isabelle
  imports Complex_Main "HOL-Library.Word"
begin

section \<open>Training-batch kernels of TurboNeRF\<close>

text \<open>
  A shallow embedding of \<^verbatim>\<open>src/utils/training-batch-kernels.cuh\<close>: the ray/pixel sampler
  (\<^verbatim>\<open>initialize_training_rays_and_pixels_kernel\<close>), the step counter
  (\<^verbatim>\<open>march_and_count_steps_per_ray_kernel\<close>) and the sample generator
  (\<^verbatim>\<open>march_and_generate_network_positions_kernel\<close>).

  Conventions of the embedding.
  \<^item> \<^verbatim>\<open>uint32_t\<close> is \<open>32 word\<close>: index arithmetic such as \<^verbatim>\<open>i + batch_size\<close> wraps.
  \<^item> \<^verbatim>\<open>float\<close> is \<open>real\<close>: arithmetic is exact, there is no rounding, no infinity and no
    NaN. Theorems whose proofs use laws of arithmetic are statements about this exact
    arithmetic; theorems about control flow and indices use none. Division by zero is
    \<open>0\<close> in HOL where IEEE gives an infinity or a NaN.
  \<^item> A device buffer is a total function from its index to its element. Out-of-bounds
    accesses (undefined behaviour in the source) are not represented.
  \<^item> A kernel is modelled per thread: the function takes the thread index \<open>i\<close>
    (\<^verbatim>\<open>blockIdx.x * blockDim.x + threadIdx.x\<close>) and the buffers, and returns the buffers
    as that thread leaves them.
  \<^item> The two \<^verbatim>\<open>while\<close> loops take a fuel argument: \<open>None\<close> means that the fuel ran out
    before the loop ended.
  \<^item> The occupancy grid, the bounding box, the camera and the colour conversion are
    declared in headers that are not part of the sources at hand; they are parameters:
    records of functions with the signatures used at the call sites.
\<close>

type_synonym u32 = "32 word"
type_synonym u8 = "8 word"
type_synonym f32 = real
type_synonym float3 = "f32 \<times> f32 \<times> f32"

subsection \<open>External collaborators\<close>

record BoundingBox =
  contains :: "f32 \<Rightarrow> f32 \<Rightarrow> f32 \<Rightarrow> bool"
  get_ray_t_intersection ::
    "f32 \<Rightarrow> f32 \<Rightarrow> f32 \<Rightarrow> f32 \<Rightarrow> f32 \<Rightarrow> f32 \<Rightarrow> f32 \<Rightarrow> f32 \<Rightarrow> f32 \<Rightarrow> bool \<times> f32"
    \<comment> \<open>origin, direction, inverse direction; returns the flag and the out-parameter \<^verbatim>\<open>t\<close>\<close>

record OccupancyGrid =
  get_dt :: "f32 \<Rightarrow> f32 \<Rightarrow> f32 \<Rightarrow> f32 \<Rightarrow> f32"
    \<comment> \<open>\<^verbatim>\<open>get_dt(t, cone_angle, dt_min, dt_max)\<close>\<close>
  get_grid_level_at :: "f32 \<Rightarrow> f32 \<Rightarrow> f32 \<Rightarrow> f32 \<Rightarrow> int"
    \<comment> \<open>\<^verbatim>\<open>get_grid_level_at(x, y, z, dt)\<close>\<close>
  is_occupied_at :: "int \<Rightarrow> f32 \<Rightarrow> f32 \<Rightarrow> f32 \<Rightarrow> bool"
    \<comment> \<open>\<^verbatim>\<open>is_occupied_at(grid_level, x, y, z)\<close>\<close>
  get_dt_to_next_voxel ::
    "f32 \<Rightarrow> f32 \<Rightarrow> f32 \<Rightarrow> f32 \<Rightarrow> f32 \<Rightarrow> f32 \<Rightarrow> f32 \<Rightarrow> f32 \<Rightarrow> f32 \<Rightarrow> f32 \<Rightarrow> int \<Rightarrow> f32"
    \<comment> \<open>\<^verbatim>\<open>get_dt_to_next_voxel(x, y, z, d_x, d_y, d_z, id_x, id_y, id_z, dt_min, grid_level)\<close>\<close>

record Ray =
  ray_o :: float3
  ray_d :: float3

record Camera =
  near :: f32
  far :: f32
  global_ray_at_pixel_xy :: "f32 \<Rightarrow> f32 \<Rightarrow> Ray"

subsection \<open>Conversions and library functions\<close>

definition truncf :: "f32 \<Rightarrow> int" where
  \<comment> \<open>rounding towards zero, as a C conversion from \<^verbatim>\<open>float\<close> to an integer type does\<close>
  "truncf v = (if 0 \<le> v then \<lfloor>v\<rfloor> else \<lceil>v\<rceil>)"

definition float_to_u32 :: "f32 \<Rightarrow> u32" where
  \<comment> \<open>\<^verbatim>\<open>static_cast<uint32_t>(v)\<close>; undefined in C++ outside \<open>(-1, 2^32)\<close>, where this wraps\<close>
  "float_to_u32 v = word_of_int (truncf v)"

definition u32_to_float :: "u32 \<Rightarrow> f32" where
  \<comment> \<open>\<^verbatim>\<open>(float)i\<close>\<close>
  "u32_to_float w = of_nat (unat w)"

definition u8_to_float :: "u8 \<Rightarrow> f32" where
  "u8_to_float w = of_nat (unat w)"

definition fmodf :: "f32 \<Rightarrow> f32 \<Rightarrow> f32" where
  \<comment> \<open>C \<^verbatim>\<open>fmodf\<close>: \<open>x - n * y\<close> with \<open>n\<close> the quotient \<open>x / y\<close> truncated towards zero\<close>
  "fmodf x y = x - of_int (truncf (x / y)) * y"

definition clamp :: "f32 \<Rightarrow> f32 \<Rightarrow> f32 \<Rightarrow> f32" where
  \<comment> \<open>\<^verbatim>\<open>tcnn::clamp(val, lower, upper)\<close> of tiny-cuda-nn\<close>
  "clamp val lower upper = (if val < lower then lower else if upper < val then upper else val)"

subsection \<open>Device buffers\<close>

text \<open>
  The structure-of-arrays buffers the three kernels are launched on. Channel \<open>c\<close> of ray
  \<open>i\<close> lives at index \<open>i + c * batch_size\<close>.
\<close>

record Buffers =
  pix_rgba :: "u32 \<Rightarrow> f32"
  ori_xyz :: "u32 \<Rightarrow> f32"
  dir_xyz :: "u32 \<Rightarrow> f32"
  idir_xyz :: "u32 \<Rightarrow> f32"
  ray_t :: "u32 \<Rightarrow> f32"
  ray_t_max :: "u32 \<Rightarrow> f32"
  ray_alive :: "u32 \<Rightarrow> bool"
  n_steps :: "u32 \<Rightarrow> u32"
  ray_offset :: "u32 \<Rightarrow> u32"
  out_pos_xyz :: "u32 \<Rightarrow> f32"
  out_dir_xyz :: "u32 \<Rightarrow> f32"
  out_dt :: "u32 \<Rightarrow> f32"

subsection \<open>Ray/pixel sampler\<close>

definition random_pixel_index :: "u32 \<Rightarrow> u32 \<Rightarrow> f32 \<Rightarrow> f32 \<Rightarrow> f32 \<Rightarrow> u32" where
  "random_pixel_index global_chunk_index n_pixels_per_image n_chunks_per_image chunk_size random =
    (let local_chunk_index = fmodf (u32_to_float global_chunk_index) n_chunks_per_image;
         chunk_start = local_chunk_index * chunk_size;
         chunk_end = chunk_start + chunk_size
     in float_to_u32 (chunk_start + random * (chunk_end - chunk_start)))"

definition initialize_training_rays_and_pixels_kernel ::
  "u32 \<Rightarrow> u32 \<Rightarrow> u32 \<Rightarrow> u32 \<Rightarrow> u32 \<times> u32 \<Rightarrow> f32 \<Rightarrow> f32 \<Rightarrow>
   BoundingBox \<Rightarrow> (u32 \<Rightarrow> Camera) \<Rightarrow> (nat \<Rightarrow> u8) \<Rightarrow> (u32 \<Rightarrow> f32) \<Rightarrow> (f32 \<Rightarrow> f32) \<Rightarrow>
   Buffers \<Rightarrow> u32 \<Rightarrow> Buffers" where
  "initialize_training_rays_and_pixels_kernel n_rays batch_size n_images n_pixels_per_image
     image_dimensions n_rays_per_image random_pixel_chunk_size
     bbox cameras image_data random srgb_to_linear b i =
   (if n_rays \<le> i then b
    else
     let image_idx = float_to_u32 (u32_to_float i / n_rays_per_image);
         pixel_idx = random_pixel_index i n_pixels_per_image n_rays_per_image
                       random_pixel_chunk_size (random i);
         x = u32_to_float (pixel_idx mod fst image_dimensions);
         y = u32_to_float (pixel_idx div fst image_dimensions);
         cam = cameras image_idx;
         global_ray = global_ray_at_pixel_xy cam x y;
         (ori_x, ori_y, ori_z) = ray_o global_ray;
         (dir_x, dir_y, dir_z) = ray_d global_ray;
         idir_x = 1 / dir_x;
         idir_y = 1 / dir_y;
         idir_z = 1 / dir_z;
         (intersects_bbox, t) = get_ray_t_intersection bbox ori_x ori_y ori_z
                                  dir_x dir_y dir_z idir_x idir_y idir_z
     in
      if \<not> intersects_bbox then b\<lparr>ray_alive := (ray_alive b)(i := False)\<rparr>
      else
       let t_max = far cam - near cam;
           t = max 0 (t + 1 / 100000)
       in
        if t_max < t then b\<lparr>ray_alive := (ray_alive b)(i := False)\<rparr>
        else
         let i_offset_0 = i;
             i_offset_1 = i_offset_0 + batch_size;
             i_offset_2 = i_offset_1 + batch_size;
             i_offset_3 = i_offset_2 + batch_size;
             img_offset = n_pixels_per_image * image_idx;
             pixel = unat (4 * (img_offset + pixel_idx));
             r = srgb_to_linear (u8_to_float (image_data pixel) / 255);
             g = srgb_to_linear (u8_to_float (image_data (pixel + 1)) / 255);
             bl = srgb_to_linear (u8_to_float (image_data (pixel + 2)) / 255);
             a = u8_to_float (image_data (pixel + 3)) / 255
         in b\<lparr>pix_rgba := (pix_rgba b)(i_offset_0 := r * a, i_offset_1 := g * a,
                                       i_offset_2 := bl * a, i_offset_3 := a),
               ori_xyz := (ori_xyz b)(i_offset_0 := ori_x, i_offset_1 := ori_y,
                                      i_offset_2 := ori_z),
               dir_xyz := (dir_xyz b)(i_offset_0 := dir_x, i_offset_1 := dir_y,
                                      i_offset_2 := dir_z),
               idir_xyz := (idir_xyz b)(i_offset_0 := idir_x, i_offset_1 := idir_y,
                                        i_offset_2 := idir_z),
               ray_t := (ray_t b)(i := t),
               ray_t_max := (ray_t_max b)(i := t_max),
               ray_alive := (ray_alive b)(i := True)\<rparr>)"

subsection \<open>Step counter\<close>

text \<open>
  The \<^verbatim>\<open>while (t < t_max)\<close> loop of the step counter. The ray's origin, direction and
  inverse direction are the locals read before the loop; the loop state is \<open>t\<close>,
  \<open>n_steps_taken\<close> and the buffers, of which it writes \<open>ray_t\<close> and \<open>ori_xyz\<close>.
  The result is the state at loop exit.
\<close>

fun count_loop ::
  "nat \<Rightarrow> BoundingBox \<Rightarrow> OccupancyGrid \<Rightarrow> f32 \<Rightarrow> f32 \<Rightarrow> f32 \<Rightarrow> u32 \<Rightarrow> u32 \<Rightarrow> u32 \<Rightarrow>
   float3 \<Rightarrow> float3 \<Rightarrow> float3 \<Rightarrow> f32 \<Rightarrow> f32 \<Rightarrow> u32 \<Rightarrow> Buffers \<Rightarrow> (f32 \<times> u32 \<times> Buffers) option" where
  "count_loop 0 bbox grid cone_angle dt_min dt_max i_offset_0 i_offset_1 i_offset_2
     ori dir idir t_max t n_steps_taken b = None"
| "count_loop (Suc fuel) bbox grid cone_angle dt_min dt_max i_offset_0 i_offset_1 i_offset_2
     (o_x, o_y, o_z) (d_x, d_y, d_z) (id_x, id_y, id_z) t_max t n_steps_taken b =
   (if t < t_max then
      let x = o_x + t * d_x;
          y = o_y + t * d_y;
          z = o_z + t * d_z
      in
       if \<not> contains bbox x y z then Some (t, n_steps_taken, b)
       else
        let dt = get_dt grid t cone_angle dt_min dt_max;
            grid_level = get_grid_level_at grid x y z dt
        in
         if is_occupied_at grid grid_level x y z then
           count_loop fuel bbox grid cone_angle dt_min dt_max i_offset_0 i_offset_1 i_offset_2
             (o_x, o_y, o_z) (d_x, d_y, d_z) (id_x, id_y, id_z) t_max
             (t + dt) (n_steps_taken + 1)
             (if n_steps_taken = 0
              then b\<lparr>ray_t := (ray_t b)(i_offset_0 := 0),
                     ori_xyz := (ori_xyz b)(i_offset_0 := x, i_offset_1 := y, i_offset_2 := z)\<rparr>
              else b)
         else
           count_loop fuel bbox grid cone_angle dt_min dt_max i_offset_0 i_offset_1 i_offset_2
             (o_x, o_y, o_z) (d_x, d_y, d_z) (id_x, id_y, id_z) t_max
             (t + get_dt_to_next_voxel grid x y z d_x d_y d_z id_x id_y id_z dt_min grid_level)
             n_steps_taken b
    else Some (t, n_steps_taken, b))"

definition march_and_count_steps_per_ray_kernel ::
  "nat \<Rightarrow> u32 \<Rightarrow> u32 \<Rightarrow> BoundingBox \<Rightarrow> OccupancyGrid \<Rightarrow> f32 \<Rightarrow> f32 \<Rightarrow> f32 \<Rightarrow>
   Buffers \<Rightarrow> u32 \<Rightarrow> Buffers option" where
  "march_and_count_steps_per_ray_kernel fuel n_rays batch_size bbox grid cone_angle dt_min dt_max
     b i =
   (if n_rays \<le> i then Some b
    else if \<not> ray_alive b i then Some (b\<lparr>n_steps := (n_steps b)(i := 0)\<rparr>)
    else
     let i_offset_0 = i;
         i_offset_1 = i_offset_0 + batch_size;
         i_offset_2 = i_offset_1 + batch_size;
         o_x = ori_xyz b i_offset_0;
         o_y = ori_xyz b i_offset_1;
         o_z = ori_xyz b i_offset_2;
         d_x = dir_xyz b i_offset_0;
         d_y = dir_xyz b i_offset_1;
         d_z = dir_xyz b i_offset_2;
         id_x = idir_xyz b i_offset_0;
         id_y = idir_xyz b i_offset_1;
         id_z = idir_xyz b i_offset_2;
         t = ray_t b i;
         t_max = ray_t_max b i
     in
      case count_loop fuel bbox grid cone_angle dt_min dt_max i_offset_0 i_offset_1 i_offset_2
             (o_x, o_y, o_z) (d_x, d_y, d_z) (id_x, id_y, id_z) t_max t 0 b of
        None \<Rightarrow> None
      | Some (t', n_steps_taken, b') \<Rightarrow>
          let b'' = (if n_steps_taken = 0 then b'\<lparr>ray_alive := (ray_alive b')(i := False)\<rparr>
                     else b')
          in Some (b''\<lparr>n_steps := (n_steps b'')(i := n_steps_taken)\<rparr>))"

subsection \<open>Sample generator\<close>

definition assign_normalized_ray_sample ::
  "u32 \<Rightarrow> u32 \<Rightarrow> u32 \<Rightarrow> f32 \<Rightarrow> f32 \<Rightarrow> f32 \<Rightarrow> f32 \<Rightarrow> f32 \<Rightarrow> f32 \<Rightarrow> f32 \<Rightarrow> f32 \<Rightarrow> Buffers \<Rightarrow> Buffers" where
  "assign_normalized_ray_sample batch_size sample_offset n_steps_taken x y z dir_x dir_y dir_z
     dt inv_aabb_size b =
   (let step_offset_0 = sample_offset + n_steps_taken;
        step_offset_1 = step_offset_0 + batch_size;
        step_offset_2 = step_offset_1 + batch_size
    in b\<lparr>out_dt := (out_dt b)(step_offset_0 := inv_aabb_size * dt),
          out_pos_xyz := (out_pos_xyz b)
            (step_offset_0 := clamp (x * inv_aabb_size + 0.5) 0 1,
             step_offset_1 := clamp (y * inv_aabb_size + 0.5) 0 1,
             step_offset_2 := clamp (z * inv_aabb_size + 0.5) 0 1),
          out_dir_xyz := (out_dir_xyz b)
            (step_offset_0 := 0.5 * dir_x + 0.5,
             step_offset_1 := 0.5 * dir_y + 0.5,
             step_offset_2 := 0.5 * dir_z + 0.5)\<rparr>)"

text \<open>
  The \<^verbatim>\<open>while (n_steps_taken < n_steps)\<close> loop of the generator. \<open>s_rand\<close> is the ray's
  slice of the random buffer. The loop state is \<open>t0\<close>, \<open>t1\<close>, \<open>n_steps_taken\<close> and the
  buffers. The last component is a ghost log, which the loop never reads: it records, for
  every call of \<open>assign_normalized_ray_sample\<close>, the slot \<open>n_steps_taken\<close> the call
  was made with and the jittered parameter \<open>tr\<close> of the sample.
\<close>

type_synonym sample_log = "(u32 \<times> f32) list"

fun gen_loop ::
  "nat \<Rightarrow> BoundingBox \<Rightarrow> OccupancyGrid \<Rightarrow> f32 \<Rightarrow> f32 \<Rightarrow> f32 \<Rightarrow> u32 \<Rightarrow> f32 \<Rightarrow> u32 \<Rightarrow> u32 \<Rightarrow>
   (u32 \<Rightarrow> f32) \<Rightarrow> float3 \<Rightarrow> float3 \<Rightarrow> float3 \<Rightarrow> f32 \<Rightarrow> f32 \<Rightarrow> u32 \<Rightarrow> Buffers \<Rightarrow> sample_log \<Rightarrow>
   (f32 \<times> f32 \<times> u32 \<times> Buffers \<times> sample_log) option" where
  "gen_loop 0 bbox grid dt_min dt_max cone_angle batch_size inv_aabb_size sample_offset n_steps_i
     s_rand ori dir idir t0 t1 n_steps_taken b slog = None"
| "gen_loop (Suc fuel) bbox grid dt_min dt_max cone_angle batch_size inv_aabb_size sample_offset
     n_steps_i s_rand (o_x, o_y, o_z) (d_x, d_y, d_z) (id_x, id_y, id_z)
     t0 t1 n_steps_taken b slog =
   (if n_steps_taken < n_steps_i then
      let tr = t0 + (t1 - t0) * s_rand n_steps_taken;
          x = o_x + tr * d_x;
          y = o_y + tr * d_y;
          z = o_z + tr * d_z;
          dt = get_dt grid tr cone_angle dt_min dt_max
      in
       if \<not> contains bbox x y z then
         Some (t0, t1, n_steps_taken,
               assign_normalized_ray_sample batch_size sample_offset n_steps_taken
                 x y z d_x d_y d_z dt inv_aabb_size b,
               slog @ [(n_steps_taken, tr)])
       else
        let grid_level = get_grid_level_at grid x y z dt
        in
         if is_occupied_at grid grid_level x y z then
           gen_loop fuel bbox grid dt_min dt_max cone_angle batch_size inv_aabb_size
             sample_offset n_steps_i s_rand (o_x, o_y, o_z) (d_x, d_y, d_z) (id_x, id_y, id_z)
             t1 (t1 + dt) (n_steps_taken + 1)
             (assign_normalized_ray_sample batch_size sample_offset n_steps_taken
                x y z d_x d_y d_z dt inv_aabb_size b)
             (slog @ [(n_steps_taken, tr)])
         else
           gen_loop fuel bbox grid dt_min dt_max cone_angle batch_size inv_aabb_size
             sample_offset n_steps_i s_rand (o_x, o_y, o_z) (d_x, d_y, d_z) (id_x, id_y, id_z)
             t1 (t1 + get_dt_to_next_voxel grid x y z d_x d_y d_z id_x id_y id_z dt_min grid_level)
             n_steps_taken b slog
    else Some (t0, t1, n_steps_taken, b, slog))"

definition march_and_generate_network_positions_kernel ::
  "nat \<Rightarrow> u32 \<Rightarrow> u32 \<Rightarrow> BoundingBox \<Rightarrow> f32 \<Rightarrow> OccupancyGrid \<Rightarrow> f32 \<Rightarrow> f32 \<Rightarrow> f32 \<Rightarrow>
   (nat \<Rightarrow> f32) \<Rightarrow> Buffers \<Rightarrow> u32 \<Rightarrow> (Buffers \<times> sample_log) option" where
  "march_and_generate_network_positions_kernel fuel n_rays batch_size bbox inv_aabb_size grid
     dt_min dt_max cone_angle random_float b i =
   (if n_rays \<le> i then Some (b, [])
    else if \<not> ray_alive b i then Some (b, [])
    else
     let n_steps_i = n_steps b i;
         sample_offset = ray_offset b i;
         i_offset_0 = i;
         i_offset_1 = i_offset_0 + batch_size;
         i_offset_2 = i_offset_1 + batch_size;
         o_x = ori_xyz b i_offset_0;
         o_y = ori_xyz b i_offset_1;
         o_z = ori_xyz b i_offset_2;
         d_x = dir_xyz b i_offset_0;
         d_y = dir_xyz b i_offset_1;
         d_z = dir_xyz b i_offset_2;
         id_x = idir_xyz b i_offset_0;
         id_y = idir_xyz b i_offset_1;
         id_z = idir_xyz b i_offset_2;
         s_rand = (\<lambda>k. random_float (unat sample_offset + unat k));
         t0 = ray_t b i;
         t1 = t0
     in
      case gen_loop fuel bbox grid dt_min dt_max cone_angle batch_size inv_aabb_size
             sample_offset n_steps_i s_rand (o_x, o_y, o_z) (d_x, d_y, d_z) (id_x, id_y, id_z)
             t0 t1 0 b [] of
        None \<Rightarrow> None
      | Some (t0', t1', n_steps_taken, b', slog) \<Rightarrow> Some (b', slog))"

section \<open>A concrete scene\<close>

text \<open>
  A small scene on which the kernels are run end to end. The bounding box is
  \<open>[0, 3) \<times> [-1, 1] \<times> [-1, 1]\<close>; the grid has unit voxels along \<open>x\<close>, of which
  \<open>[1, 2)\<close> is empty and the rest is occupied; the step size is the cone-angle formula
  clamped to \<open>[dt_min, dt_max]\<close>; the skip distance is the distance to the next voxel
  boundary along \<open>x\<close>, and at least \<open>dt_min\<close>. The camera looks along \<open>x\<close> from \<open>(3/4, 0, 0)\<close>, with
  \<open>near = 0\<close> and \<open>far = 9/4\<close>. All numbers are dyadic, so that every operation of the
  runs below is exact in binary floating point as well.
\<close>

definition scene_bbox :: BoundingBox where
  "scene_bbox =
     \<lparr>contains = (\<lambda>x y z. 0 \<le> x \<and> x < 3 \<and> - 1 \<le> y \<and> y \<le> 1 \<and> - 1 \<le> z \<and> z \<le> 1),
      get_ray_t_intersection =
        (\<lambda>o_x o_y o_z d_x d_y d_z id_x id_y id_z. (0 < d_x \<and> o_x < 3, (0 - o_x) * id_x))\<rparr>"

definition scene_grid :: OccupancyGrid where
  "scene_grid =
     \<lparr>get_dt = (\<lambda>t cone_angle dt_min dt_max. clamp (t * cone_angle) dt_min dt_max),
      get_grid_level_at = (\<lambda>x y z dt. 0),
      is_occupied_at = (\<lambda>grid_level x y z. x < 1 \<or> 2 \<le> x),
      get_dt_to_next_voxel =
        (\<lambda>x y z d_x d_y d_z id_x id_y id_z dt_min grid_level.
           max dt_min ((of_int \<lfloor>x\<rfloor> + 1 - x) * id_x))\<rparr>"

definition scene_camera :: Camera where
  "scene_camera =
     \<lparr>near = 0, far = 9 / 4,
      global_ray_at_pixel_xy = (\<lambda>x y. \<lparr>ray_o = (3 / 4, 0, 0), ray_d = (1, 0, 0)\<rparr>)\<rparr>"

definition blank_buffers :: Buffers where
  "blank_buffers =
     \<lparr>pix_rgba = (\<lambda>_. 0), ori_xyz = (\<lambda>_. 0), dir_xyz = (\<lambda>_. 0), idir_xyz = (\<lambda>_. 0),
      ray_t = (\<lambda>_. 0), ray_t_max = (\<lambda>_. 0), ray_alive = (\<lambda>_. False), n_steps = (\<lambda>_. 0),
      ray_offset = (\<lambda>_. 0), out_pos_xyz = (\<lambda>_. - 1), out_dir_xyz = (\<lambda>_. - 1),
      out_dt = (\<lambda>_. - 1)\<rparr>"

text \<open>One ray, batch size 8, one image of one white pixel, random value 0.\<close>

definition scene_sampled :: Buffers where
  "scene_sampled =
     initialize_training_rays_and_pixels_kernel 1 8 1 1 (1, 1) 1 1 scene_bbox (\<lambda>_. scene_camera)
       (\<lambda>_. 255) (\<lambda>_. 0) (\<lambda>v. v) blank_buffers 0"

text \<open>The same ray with its \<open>t\<close> advanced into the empty voxel, and beyond \<open>t_max\<close>.\<close>

definition scene_late :: Buffers where
  "scene_late = scene_sampled\<lparr>ray_t := (ray_t scene_sampled)(0 := 1 / 4)\<rparr>"

definition scene_overshot :: Buffers where
  "scene_overshot = scene_sampled\<lparr>ray_t := (ray_t scene_sampled)(0 := 5)\<rparr>"

text \<open>
  The scene after the step counter: five steps, the ray re-anchored at its first hit, which
  is its origin. The generator's random buffer is all 0.
\<close>

definition scene_random :: "nat \<Rightarrow> f32" where
  "scene_random = (\<lambda>_. 0)"




text \<open>
  Two rays on the same grid, after the counter and the scan: ray 0 starts at \<open>x = 3/4\<close>
  with 2 counted steps and offset 0, ray 1 starts at \<open>x = 2\<close> with 1 counted step and
  offset 2. Their second and third coordinates are 0 whatever the stride.
  \<open>two_rays_generated\<close> is what the generator's thread 0 leaves with stride 8.
\<close>

definition two_rays :: Buffers where
  "two_rays =
     blank_buffers\<lparr>ori_xyz := (ori_xyz blank_buffers)(0 := 3 / 4, 1 := 2),
                    dir_xyz := (dir_xyz blank_buffers)(0 := 1, 1 := 1),
                    idir_xyz := (idir_xyz blank_buffers)(0 := 1, 1 := 1),
                    ray_t_max := (ray_t_max blank_buffers)(0 := 4, 1 := 4),
                    ray_alive := (ray_alive blank_buffers)(0 := True, 1 := True),
                    n_steps := (n_steps blank_buffers)(0 := 2, 1 := 1),
                    ray_offset := (ray_offset blank_buffers)(0 := 0, 1 := 2)\<rparr>"

definition two_rays_generated :: Buffers where
  "two_rays_generated =
     two_rays\<lparr>out_dt := (out_dt two_rays)(0 := 1 / 16, 1 := 1 / 16),
               out_pos_xyz := (out_pos_xyz two_rays)
                 (0 := 11 / 16, 8 := 1 / 2, 16 := 1 / 2, 1 := 11 / 16, 9 := 1 / 2, 17 := 1 / 2),
               out_dir_xyz := (out_dir_xyz two_rays)
                 (0 := 1, 8 := 1 / 2, 16 := 1 / 2, 1 := 1, 9 := 1 / 2, 17 := 1 / 2)\<rparr>"

definition pos_entry :: "u32 \<Rightarrow> Buffers \<times> sample_log \<Rightarrow> f32" where
  "pos_entry j r = out_pos_xyz (fst r) j"


section \<open>Notions used to state the properties\<close>

text \<open>
  The world position of the first occupied cell that the march of the step counter meets:
  the counter's loop, stopped at its first hit. \<open>Some None\<close> means that the march ends
  without a hit, \<open>None\<close> that the fuel ran out.
\<close>

fun first_hit ::
  "nat \<Rightarrow> BoundingBox \<Rightarrow> OccupancyGrid \<Rightarrow> f32 \<Rightarrow> f32 \<Rightarrow> f32 \<Rightarrow>
   float3 \<Rightarrow> float3 \<Rightarrow> float3 \<Rightarrow> f32 \<Rightarrow> f32 \<Rightarrow> float3 option option" where
  "first_hit 0 bbox grid cone_angle dt_min dt_max ori dir idir t_max t = None"
| "first_hit (Suc fuel) bbox grid cone_angle dt_min dt_max
     (o_x, o_y, o_z) (d_x, d_y, d_z) (id_x, id_y, id_z) t_max t =
   (if t < t_max then
      let x = o_x + t * d_x;
          y = o_y + t * d_y;
          z = o_z + t * d_z
      in
       if \<not> contains bbox x y z then Some None
       else
        let dt = get_dt grid t cone_angle dt_min dt_max;
            grid_level = get_grid_level_at grid x y z dt
        in
         if is_occupied_at grid grid_level x y z then Some (Some (x, y, z))
         else
           first_hit fuel bbox grid cone_angle dt_min dt_max
             (o_x, o_y, o_z) (d_x, d_y, d_z) (id_x, id_y, id_z) t_max
             (t + get_dt_to_next_voxel grid x y z d_x d_y d_z id_x id_y id_z dt_min grid_level)
    else Some None)"

text \<open>Whether the point of a ray at parameter \<open>tr\<close> lies in the bounding box.\<close>

definition in_bbox :: "BoundingBox \<Rightarrow> float3 \<Rightarrow> float3 \<Rightarrow> f32 \<Rightarrow> bool" where
  "in_bbox bbox ori dir tr =
     (case (ori, dir) of ((o_x, o_y, o_z), (d_x, d_y, d_z)) \<Rightarrow>
        contains bbox (o_x + tr * d_x) (o_y + tr * d_y) (o_z + tr * d_z))"

text \<open>
  The indices reserved for a ray with compacted offset \<open>sample_offset\<close> and \<open>n_steps_i\<close>
  counted steps. In 32-bit arithmetic an index \<open>j\<close> is of the form \<open>sample_offset + k\<close>
  with \<open>k < n_steps_i\<close> exactly if \<open>j - sample_offset < n_steps_i\<close>; the channels of the
  position and direction buffers add \<open>batch_size\<close> and \<open>2 * batch_size\<close>.
\<close>

definition in_dt_slots :: "u32 \<Rightarrow> u32 \<Rightarrow> u32 \<Rightarrow> bool" where
  "in_dt_slots sample_offset n_steps_i j = (j - sample_offset < n_steps_i)"

definition in_xyz_slots :: "u32 \<Rightarrow> u32 \<Rightarrow> u32 \<Rightarrow> u32 \<Rightarrow> bool" where
  "in_xyz_slots batch_size sample_offset n_steps_i j =
     (j - sample_offset < n_steps_i \<or> j - sample_offset - batch_size < n_steps_i
      \<or> j - sample_offset - batch_size - batch_size < n_steps_i)"

text \<open>The buffers that the generator only reads are the same in \<open>b\<close> and \<open>b'\<close>.\<close>

definition same_ray_buffers :: "Buffers \<Rightarrow> Buffers \<Rightarrow> bool" where
  "same_ray_buffers b b' =
     (pix_rgba b' = pix_rgba b \<and> ori_xyz b' = ori_xyz b \<and> dir_xyz b' = dir_xyz b
      \<and> idir_xyz b' = idir_xyz b \<and> ray_t b' = ray_t b \<and> ray_t_max b' = ray_t_max b
      \<and> ray_alive b' = ray_alive b \<and> n_steps b' = n_steps b \<and> ray_offset b' = ray_offset b)"

text \<open>
  Modelled from the spec: the ray offsets are ``the exclusive prefix sum over step counts
  giving each ray's starting index into the compacted sample buffer'', computed between the
  counting and the generating pass by a scan of the training loop, which is not part of
  the sources at hand. \<open>exclusive_scan counts r\<close> is the offset of ray \<open>r\<close>, in 32-bit
  arithmetic; \<open>total_steps counts r\<close> is the same sum without wrap-around.
\<close>

primrec exclusive_scan :: "(u32 \<Rightarrow> u32) \<Rightarrow> nat \<Rightarrow> u32" where
  "exclusive_scan counts 0 = 0"
| "exclusive_scan counts (Suc r) = exclusive_scan counts r + counts (of_nat r)"

primrec total_steps :: "(u32 \<Rightarrow> u32) \<Rightarrow> nat \<Rightarrow> nat" where
  "total_steps counts 0 = 0"
| "total_steps counts (Suc r) = total_steps counts r + unat (counts (of_nat r))"

section \<open>Properties\<close>

subsection \<open>Auxiliary facts\<close>



text \<open>Unfolding a loop whose fuel is a numeral.\<close>

lemma count_loop_numeral:
  "count_loop (numeral k) = count_loop (Suc (pred_numeral k))"
  by (simp add: numeral_eq_Suc)

lemma gen_loop_numeral:
  "gen_loop (numeral k) = gen_loop (Suc (pred_numeral k))"
  by (simp add: numeral_eq_Suc)

lemma scene_sampled_eq:
  "scene_sampled = blank_buffers
     \<lparr>pix_rgba := (\<lambda>_. 0)(0 := 1, 8 := 1, 16 := 1, 24 := 1),
      ori_xyz := (\<lambda>_. 0)(0 := 3 / 4, 8 := 0, 16 := 0),
      dir_xyz := (\<lambda>_. 0)(0 := 1, 8 := 0, 16 := 0),
      idir_xyz := (\<lambda>_. 0)(0 := 1, 8 := 0, 16 := 0),
      ray_t := (\<lambda>_. 0)(0 := 0),
      ray_t_max := (\<lambda>_. 0)(0 := 9 / 4),
      ray_alive := (\<lambda>_. False)(0 := True)\<rparr>"
  by (simp add: scene_sampled_def initialize_training_rays_and_pixels_kernel_def
      random_pixel_index_def fmodf_def truncf_def float_to_u32_def u32_to_float_def
      u8_to_float_def scene_bbox_def scene_camera_def blank_buffers_def Let_def)

subsection \<open>Sampler\<close>





lemma first_hit_numeral:
  "first_hit (numeral k) = first_hit (Suc (pred_numeral k))"
  by (simp add: numeral_eq_Suc)

subsection \<open>Step counter\<close>

lemma unat_succ_bound:
  fixes n :: u32
  assumes "unat n + Suc fuel < 2 ^ 32"
  shows "unat (n + 1) = Suc (unat n)" and "unat (n + 1) + fuel < 2 ^ 32" and "n + 1 \<noteq> 0"
proof -
  have "unat n + unat (1 :: u32) < 2 ^ LENGTH(32)" using assms by simp
  then have "unat (n + 1) = unat n + unat (1 :: u32)" by (simp only: unat_add_lem)
  then show a: "unat (n + 1) = Suc (unat n)" by simp
  show "unat (n + 1) + fuel < 2 ^ 32" using a assms by simp
  show "n + 1 \<noteq> 0" using a by (metis Zero_not_Suc unat_0)
qed

lemma count_loop_after_first_hit:
  "count_loop fuel bbox grid cone_angle dt_min dt_max i_offset_0 i_offset_1 i_offset_2
     ori dir idir t_max t n b = Some (t', n', b') \<Longrightarrow>
   n \<noteq> 0 \<Longrightarrow> unat n + fuel < 2 ^ 32 \<Longrightarrow> b' = b \<and> n' \<noteq> 0"
proof (induction fuel arbitrary: t n)
  case 0
  then show ?case by simp
next
  case (Suc fuel)
  obtain o_x o_y o_z d_x d_y d_z id_x id_y id_z
    where [simp]: "ori = (o_x, o_y, o_z)" "dir = (d_x, d_y, d_z)" "idir = (id_x, id_y, id_z)"
    by (cases ori, cases dir, cases idir) auto
  note b = unat_succ_bound [OF Suc.prems(3)]
  have less: "unat n + fuel < 2 ^ 32" using Suc.prems(3) by simp
  show ?case
    using Suc.prems(1,2) Suc.IH [of _ n, OF _ Suc.prems(2) less]
      Suc.IH [of _ "n + 1", OF _ b(3) b(2)]
    by (auto simp add: Let_def split: if_splits)
qed

lemma count_loop_first_hit:
  "count_loop fuel bbox grid cone_angle dt_min dt_max i_offset_0 i_offset_1 i_offset_2
     ori dir idir t_max t 0 b = Some (t', n', b') \<Longrightarrow>
   fuel < 2 ^ 32 \<Longrightarrow>
   (case first_hit fuel bbox grid cone_angle dt_min dt_max ori dir idir t_max t of
      Some (Some (x, y, z)) \<Rightarrow>
        b' = b\<lparr>ray_t := (ray_t b)(i_offset_0 := 0),
               ori_xyz := (ori_xyz b)(i_offset_0 := x, i_offset_1 := y, i_offset_2 := z)\<rparr>
        \<and> n' \<noteq> 0
    | Some None \<Rightarrow> b' = b \<and> n' = 0
    | None \<Rightarrow> False)"
proof (induction fuel arbitrary: t)
  case 0
  then show ?case by simp
next
  case (Suc fuel)
  obtain o_x o_y o_z d_x d_y d_z id_x id_y id_z
    where [simp]: "ori = (o_x, o_y, o_z)" "dir = (d_x, d_y, d_z)" "idir = (id_x, id_y, id_z)"
    by (cases ori, cases dir, cases idir) auto
  have less: "fuel < 2 ^ 32" and one: "unat (1 :: u32) + fuel < 2 ^ 32"
    using Suc.prems(2) by simp_all
  show ?case
    using Suc.prems(1) Suc.IH [OF _ less]
      count_loop_after_first_hit [where n = 1 and fuel = fuel, OF _ _ one]
    by (auto simp add: Let_def split: if_splits)
qed

text \<open>
  Claim C6. On a live ray's first occupied-cell hit, and only then, the step counter
  overwrites the ray's stored origin with the world position of the hit and resets the
  stored \<open>ray_t[i]\<close> to 0; a ray that never hits an occupied cell keeps its stored origin
  and \<open>t\<close>. The buffers after the kernel are the buffers before it with that one update,
  so the update happens at most once.

  The hypothesis \<open>fuel < 2 ^ 32\<close> bounds the number of loop iterations: \<open>n_steps_taken\<close>
  is a \<^verbatim>\<open>uint32_t\<close>, and the test \<^verbatim>\<open>n_steps_taken == 0\<close> would succeed again after
  \<open>2 ^ 32\<close> increments. The loop's next \<open>t\<close> is a function of \<open>t\<close> alone, so a march
  that ends never visits a value of \<open>t\<close> twice, and a \<^verbatim>\<open>float\<close> has fewer than
  \<open>2 ^ 32\<close> values: every march of the source that ends is within the bound.
\<close>

theorem counter_reanchors_at_first_hit:
  assumes "i < n_rays" and "ray_alive b i" and "fuel < 2 ^ 32"
    and "march_and_count_steps_per_ray_kernel fuel n_rays batch_size bbox grid cone_angle
           dt_min dt_max b i = Some b'"
  shows
   "case first_hit fuel bbox grid cone_angle dt_min dt_max
           (ori_xyz b i, ori_xyz b (i + batch_size), ori_xyz b (i + batch_size + batch_size))
           (dir_xyz b i, dir_xyz b (i + batch_size), dir_xyz b (i + batch_size + batch_size))
           (idir_xyz b i, idir_xyz b (i + batch_size), idir_xyz b (i + batch_size + batch_size))
           (ray_t_max b i) (ray_t b i) of
      Some (Some (x, y, z)) \<Rightarrow>
          ori_xyz b' = (ori_xyz b)(i := x, i + batch_size := y, i + batch_size + batch_size := z)
        \<and> ray_t b' = (ray_t b)(i := 0)
    | Some None \<Rightarrow> ori_xyz b' = ori_xyz b \<and> ray_t b' = ray_t b
    | None \<Rightarrow> False"
proof -
  let ?ori = "(ori_xyz b i, ori_xyz b (i + batch_size), ori_xyz b (i + batch_size + batch_size))"
  let ?dir = "(dir_xyz b i, dir_xyz b (i + batch_size), dir_xyz b (i + batch_size + batch_size))"
  let ?idir = "(idir_xyz b i, idir_xyz b (i + batch_size),
               idir_xyz b (i + batch_size + batch_size))"
  obtain t' n' c where loop:
    "count_loop fuel bbox grid cone_angle dt_min dt_max i (i + batch_size)
       (i + batch_size + batch_size) ?ori ?dir ?idir (ray_t_max b i) (ray_t b i) 0 b
     = Some (t', n', c)"
    and b': "b' = (if n' = 0 then c\<lparr>ray_alive := (ray_alive c)(i := False)\<rparr> else c)
                    \<lparr>n_steps := (n_steps (if n' = 0 then c\<lparr>ray_alive := (ray_alive c)(i := False)\<rparr>
                                           else c))(i := n')\<rparr>"
    using assms(1,2,4)
    by (auto simp add: march_and_count_steps_per_ray_kernel_def Let_def
        split: option.splits if_splits)
  show ?thesis
    using count_loop_first_hit [OF loop assms(3)] b'
    by (auto split: option.splits)
qed

text \<open>
  In the scene, the ray advanced to \<open>t = 1/4\<close> starts at \<open>x = 1\<close> in the empty voxel,
  skips to \<open>x = 2\<close> and takes four steps of \<open>1/4\<close> there: its origin becomes
  \<open>(2, 0, 0)\<close> and its \<open>t\<close> becomes 0. The ray advanced beyond \<open>t_max\<close> keeps both.
\<close>

theorem counter_reanchors_at_first_hit_witness:
  "(0 :: u32) < 1 \<and> ray_alive scene_late 0 \<and> (8 :: nat) < 2 ^ 32
   \<and> first_hit 8 scene_bbox scene_grid 0 (1 / 4) 1 (3 / 4, 0, 0) (1, 0, 0) (1, 0, 0) (9 / 4)
        (1 / 4)
      = Some (Some (2, 0, 0))
   \<and> map_option (\<lambda>c. (ori_xyz c 0, ori_xyz c 8, ori_xyz c 16, ray_t c 0, n_steps c 0))
        (march_and_count_steps_per_ray_kernel 8 1 8 scene_bbox scene_grid 0 (1 / 4) 1 scene_late 0)
      = Some (2, 0, 0, 0, 4)
   \<and> ray_alive scene_overshot 0
   \<and> first_hit 8 scene_bbox scene_grid 0 (1 / 4) 1 (3 / 4, 0, 0) (1, 0, 0) (1, 0, 0) (9 / 4) 5
      = Some None
   \<and> map_option (\<lambda>c. (ori_xyz c 0, ori_xyz c 8, ori_xyz c 16, ray_t c 0, n_steps c 0))
        (march_and_count_steps_per_ray_kernel 8 1 8 scene_bbox scene_grid 0 (1 / 4) 1
           scene_overshot 0)
      = Some (3 / 4, 0, 0, 5, 0)"
  using counter_reanchors_at_first_hit [where i = 0 and n_rays = 1 and b = scene_late
      and fuel = 8 and batch_size = 8 and bbox = scene_bbox and grid = scene_grid
      and cone_angle = 0 and dt_min = "1 / 4" and dt_max = 1]
    counter_reanchors_at_first_hit [where i = 0 and n_rays = 1 and b = scene_overshot
      and fuel = 8 and batch_size = 8 and bbox = scene_bbox and grid = scene_grid
      and cone_angle = 0 and dt_min = "1 / 4" and dt_max = 1]
  by (simp add: march_and_count_steps_per_ray_kernel_def scene_late_def scene_overshot_def
      scene_sampled_eq blank_buffers_def scene_bbox_def scene_grid_def clamp_def
      count_loop_numeral first_hit_numeral Let_def del: Suc_numeral)

text \<open>
  Claim C8. The step counter writes \<open>n_steps[i] = 0\<close> for a ray that is already dead,
  whatever the fuel, the grid and the box (it does not march); and a live ray whose march
  produces zero steps is marked dead. Both cases return buffers: there is no error value.
\<close>

theorem counter_dead_and_zero_step_rays:
  assumes "i < n_rays"
  shows "(\<not> ray_alive b i \<longrightarrow>
            march_and_count_steps_per_ray_kernel fuel n_rays batch_size bbox grid cone_angle
              dt_min dt_max b i = Some (b\<lparr>n_steps := (n_steps b)(i := 0)\<rparr>))
       \<and> (ray_alive b i \<longrightarrow>
            march_and_count_steps_per_ray_kernel fuel n_rays batch_size bbox grid cone_angle
              dt_min dt_max b i = Some b' \<longrightarrow>
            n_steps b' i = 0 \<longrightarrow> \<not> ray_alive b' i)"
  using assms
  by (auto simp add: march_and_count_steps_per_ray_kernel_def Let_def not_le
      split: option.splits prod.splits if_splits)

theorem counter_dead_and_zero_step_rays_witness:
  "(0 :: u32) < 1 \<and> \<not> ray_alive blank_buffers 0
   \<and> march_and_count_steps_per_ray_kernel 0 1 8 scene_bbox scene_grid 0 (1 / 4) 1 blank_buffers 0
       = Some (blank_buffers\<lparr>n_steps := (n_steps blank_buffers)(0 := 0)\<rparr>)
   \<and> ray_alive scene_overshot 0
   \<and> march_and_count_steps_per_ray_kernel 1 1 8 scene_bbox scene_grid 0 (1 / 4) 1 scene_overshot 0
       = Some (scene_overshot\<lparr>ray_alive := (ray_alive scene_overshot)(0 := False),
                               n_steps := (n_steps scene_overshot)(0 := 0)\<rparr>)
   \<and> \<not> ray_alive (scene_overshot\<lparr>ray_alive := (ray_alive scene_overshot)(0 := False),
                               n_steps := (n_steps scene_overshot)(0 := 0)\<rparr>) 0"
  using counter_dead_and_zero_step_rays [where i = 0 and n_rays = 1 and b = blank_buffers
      and fuel = 0 and batch_size = 8 and bbox = scene_bbox and grid = scene_grid
      and cone_angle = 0 and dt_min = "1 / 4" and dt_max = 1]
    counter_dead_and_zero_step_rays [where i = 0 and n_rays = 1 and b = scene_overshot
      and fuel = 1 and batch_size = 8 and bbox = scene_bbox and grid = scene_grid
      and cone_angle = 0 and dt_min = "1 / 4" and dt_max = 1
      and b' = "scene_overshot\<lparr>ray_alive := (ray_alive scene_overshot)(0 := False),
                               n_steps := (n_steps scene_overshot)(0 := 0)\<rparr>"]
  by (simp add: march_and_count_steps_per_ray_kernel_def scene_overshot_def scene_sampled_eq
      blank_buffers_def Let_def)

text \<open>
  Claim C9. For a ray \<open>i\<close> that the sampler left dead, the step counter and the sample
  generator do not depend on the origin, direction, inverse-direction, \<open>t\<close>, \<open>t_max\<close>
  and pixel buffers: two runs on buffers that differ arbitrarily in these (and in the
  fuel) end with the same step counts, liveness flags and network buffers, and write
  none of the buffers that were varied.
\<close>

theorem dead_ray_noninterference:
  assumes "i < n_rays" and "\<not> ray_alive b i"
    and "b' = b\<lparr>pix_rgba := pix', ori_xyz := ori', dir_xyz := dir', idir_xyz := idir',
                ray_t := t', ray_t_max := t_max'\<rparr>"
  shows
   "case (march_and_count_steps_per_ray_kernel fuel n_rays batch_size bbox grid cone_angle
            dt_min dt_max b i,
          march_and_count_steps_per_ray_kernel fuel' n_rays batch_size bbox grid cone_angle
            dt_min dt_max b' i) of
      (Some c, Some c') \<Rightarrow>
          n_steps c = n_steps c' \<and> ray_alive c = ray_alive c'
        \<and> ori_xyz c = ori_xyz b \<and> ray_t c = ray_t b
        \<and> ori_xyz c' = ori_xyz b' \<and> ray_t c' = ray_t b'
        \<and> march_and_generate_network_positions_kernel fuel n_rays batch_size bbox
             inv_aabb_size grid dt_min dt_max cone_angle random_float c i = Some (c, [])
        \<and> march_and_generate_network_positions_kernel fuel' n_rays batch_size bbox
             inv_aabb_size grid dt_min dt_max cone_angle random_float c' i = Some (c', [])
        \<and> out_pos_xyz c = out_pos_xyz c' \<and> out_dir_xyz c = out_dir_xyz c'
        \<and> out_dt c = out_dt c'
    | _ \<Rightarrow> False"
  using assms
  by (auto simp add: march_and_count_steps_per_ray_kernel_def
      march_and_generate_network_positions_kernel_def)

theorem dead_ray_noninterference_witness:
  "(0 :: u32) < 1 \<and> \<not> ray_alive blank_buffers 0
   \<and> map_option (\<lambda>c. n_steps c 0)
        (march_and_count_steps_per_ray_kernel 0 1 8 scene_bbox scene_grid 0 (1 / 4) 1
           blank_buffers 0) = Some 0
   \<and> map_option (\<lambda>c. n_steps c 0)
        (march_and_count_steps_per_ray_kernel 0 1 8 scene_bbox scene_grid 0 (1 / 4) 1
          (blank_buffers\<lparr>pix_rgba := (\<lambda>_. 7), ori_xyz := (\<lambda>_. 7), dir_xyz := (\<lambda>_. 7),
             idir_xyz := (\<lambda>_. 7), ray_t := (\<lambda>_. 7), ray_t_max := (\<lambda>_. 7)\<rparr>) 0) = Some 0"
  using dead_ray_noninterference [where i = 0 and n_rays = 1 and b = blank_buffers
      and pix' = "\<lambda>_. 7" and ori' = "\<lambda>_. 7" and dir' = "\<lambda>_. 7" and idir' = "\<lambda>_. 7"
      and t' = "\<lambda>_. 7" and t_max' = "\<lambda>_. 7" and fuel = 0 and fuel' = 0 and batch_size = 8
      and bbox = scene_bbox and grid = scene_grid and cone_angle = 0 and dt_min = "1 / 4"
      and dt_max = 1 and inv_aabb_size = "1 / 4" and random_float = "\<lambda>_. 0", OF _ _ refl]
  by (simp add: march_and_count_steps_per_ray_kernel_def blank_buffers_def)

subsection \<open>Sample generator\<close>

text \<open>One iteration of the generator's loop, by cases, and what a run preserves.\<close>

lemma word_less_succ:
  fixes k :: u32
  assumes "k < n"
  shows "unat (k + 1) = Suc (unat k)" and "k + 1 \<le> n" and "k \<le> k + 1"
proof -
  have "unat k < unat n" using assms by (simp add: word_less_nat_alt)
  moreover have "unat n < 2 ^ 32" using unsigned_less [of n] by simp
  ultimately have "unat k + unat (1 :: u32) < 2 ^ LENGTH(32)" by simp
  then have "unat (k + 1) = unat k + unat (1 :: u32)" by (simp only: unat_add_lem)
  then show a: "unat (k + 1) = Suc (unat k)" by simp
  show "k + 1 \<le> n" using assms by (rule inc_le)
  show "k \<le> k + 1" using a by (simp add: word_le_nat_alt)
qed

lemma gen_loop_Suc_cases [consumes 1, case_names finished exit hit skip]:
  fixes o_x o_y o_z d_x d_y d_z id_x id_y id_z t0 t1 cone_angle dt_min dt_max :: f32
    and k :: u32 and s_rand :: "u32 \<Rightarrow> f32" and grid :: OccupancyGrid
  defines "tr \<equiv> t0 + (t1 - t0) * s_rand k"
  defines "x \<equiv> o_x + tr * d_x" and "y \<equiv> o_y + tr * d_y" and "z \<equiv> o_z + tr * d_z"
  defines "dt \<equiv> get_dt grid tr cone_angle dt_min dt_max"
  defines "grid_level \<equiv> get_grid_level_at grid x y z dt"
  assumes run: "gen_loop (Suc fuel) bbox grid dt_min dt_max cone_angle batch_size inv_aabb_size
      sample_offset n_steps_i s_rand (o_x, o_y, o_z) (d_x, d_y, d_z) (id_x, id_y, id_z)
      t0 t1 k b slog = Some r"
  obtains
    (finished) "\<not> k < n_steps_i" and "r = (t0, t1, k, b, slog)"
  | (exit) "k < n_steps_i" and "\<not> contains bbox x y z"
      and "r = (t0, t1, k,
                assign_normalized_ray_sample batch_size sample_offset k x y z d_x d_y d_z dt
                  inv_aabb_size b,
                slog @ [(k, tr)])"
  | (hit) "k < n_steps_i" and "contains bbox x y z" and "is_occupied_at grid grid_level x y z"
      and "gen_loop fuel bbox grid dt_min dt_max cone_angle batch_size inv_aabb_size
             sample_offset n_steps_i s_rand (o_x, o_y, o_z) (d_x, d_y, d_z) (id_x, id_y, id_z)
             t1 (t1 + dt) (k + 1)
             (assign_normalized_ray_sample batch_size sample_offset k x y z d_x d_y d_z dt
                inv_aabb_size b)
             (slog @ [(k, tr)]) = Some r"
  | (skip) "k < n_steps_i" and "contains bbox x y z"
      and "\<not> is_occupied_at grid grid_level x y z"
      and "gen_loop fuel bbox grid dt_min dt_max cone_angle batch_size inv_aabb_size
             sample_offset n_steps_i s_rand (o_x, o_y, o_z) (d_x, d_y, d_z) (id_x, id_y, id_z)
             t1 (t1 + get_dt_to_next_voxel grid x y z d_x d_y d_z id_x id_y id_z dt_min
                        grid_level)
             k b slog = Some r"
  using run
  unfolding tr_def x_def y_def z_def dt_def grid_level_def
  by (auto simp add: Let_def split: if_splits)

lemma gen_loop_count:
  "gen_loop fuel bbox grid dt_min dt_max cone_angle batch_size inv_aabb_size sample_offset
     n_steps_i s_rand ori dir idir t0 t1 k b slog = Some (t0', t1', k', b', slog') \<Longrightarrow>
   k \<le> n_steps_i \<Longrightarrow> k \<le> k' \<and> k' \<le> n_steps_i"
proof (induction fuel arbitrary: t0 t1 k b slog)
  case 0
  then show ?case by simp
next
  case (Suc fuel)
  obtain o_x o_y o_z d_x d_y d_z id_x id_y id_z
    where split: "ori = (o_x, o_y, o_z)" "dir = (d_x, d_y, d_z)" "idir = (id_x, id_y, id_z)"
    by (cases ori, cases dir, cases idir) auto
  from Suc.prems(1) [unfolded split] show ?case
  proof (cases rule: gen_loop_Suc_cases)
    case finished
    then show ?thesis using Suc.prems(2) by simp
  next
    case exit
    then show ?thesis using Suc.prems(2) by simp
  next
    case hit
    note w = word_less_succ [OF hit(1)]
    show ?thesis using Suc.IH [OF hit(4) [folded split] w(2)] w(3) by auto
  next
    case skip
    show ?thesis using Suc.IH [OF skip(4) [folded split] Suc.prems(2)] .
  qed
qed

lemma gen_loop_exit:
  "gen_loop fuel bbox grid dt_min dt_max cone_angle batch_size inv_aabb_size sample_offset
     n_steps_i s_rand ori dir idir t0 t1 k b slog = Some (t0', t1', k', b', slog') \<Longrightarrow>
   k' < n_steps_i \<Longrightarrow> slog' \<noteq> [] \<and> \<not> in_bbox bbox ori dir (snd (last slog'))"
proof (induction fuel arbitrary: t0 t1 k b slog)
  case 0
  then show ?case by simp
next
  case (Suc fuel)
  obtain o_x o_y o_z d_x d_y d_z id_x id_y id_z
    where split: "ori = (o_x, o_y, o_z)" "dir = (d_x, d_y, d_z)" "idir = (id_x, id_y, id_z)"
    by (cases ori, cases dir, cases idir) auto
  from Suc.prems(1) [unfolded split] show ?case
  proof (cases rule: gen_loop_Suc_cases)
    case finished
    then show ?thesis using Suc.prems(2) by simp
  next
    case exit
    then show ?thesis by (simp add: in_bbox_def split)
  next
    case hit
    show ?thesis using Suc.IH [OF hit(4) [folded split] Suc.prems(2)] .
  next
    case skip
    show ?thesis using Suc.IH [OF skip(4) [folded split] Suc.prems(2)] .
  qed
qed

lemma gen_loop_log:
  "gen_loop fuel bbox grid dt_min dt_max cone_angle batch_size inv_aabb_size sample_offset
     n_steps_i s_rand ori dir idir t0 t1 k b slog = Some (t0', t1', k', b', slog') \<Longrightarrow>
   k \<le> n_steps_i \<Longrightarrow>
   map fst slog' = map fst slog
      @ map of_nat [unat k..<unat k' + (if k' < n_steps_i then 1 else 0)]"
proof (induction fuel arbitrary: t0 t1 k b slog)
  case 0
  then show ?case by simp
next
  case (Suc fuel)
  obtain o_x o_y o_z d_x d_y d_z id_x id_y id_z
    where split: "ori = (o_x, o_y, o_z)" "dir = (d_x, d_y, d_z)" "idir = (id_x, id_y, id_z)"
    by (cases ori, cases dir, cases idir) auto
  from Suc.prems(1) [unfolded split] show ?case
  proof (cases rule: gen_loop_Suc_cases)
    case finished
    then show ?thesis using Suc.prems(2) by simp
  next
    case exit
    then show ?thesis by simp
  next
    case hit
    note w = word_less_succ [OF hit(1)]
    note rec = hit(4) [folded split]
    have "k + 1 \<le> k'" using gen_loop_count [OF rec w(2)] by simp
    then have "unat k < unat k' + (if k' < n_steps_i then 1 else 0)"
      using w(1) by (simp add: word_le_nat_alt)
    then have "[unat k..<unat k' + (if k' < n_steps_i then 1 else 0)]
        = unat k # [unat (k + 1)..<unat k' + (if k' < n_steps_i then 1 else 0)]"
      using w(1) by (simp add: upt_conv_Cons)
    then show ?thesis using Suc.IH [OF rec w(2)] by simp
  next
    case skip
    show ?thesis using Suc.IH [OF skip(4) [folded split] Suc.prems(2)] .
  qed
qed


lemma assign_frame:
  assumes "k < n_steps_i"
  shows "\<not> in_dt_slots sample_offset n_steps_i j \<Longrightarrow>
           out_dt (assign_normalized_ray_sample batch_size sample_offset k x y z d_x d_y d_z dt
                     inv_aabb_size b) j = out_dt b j"
    and "\<not> in_xyz_slots batch_size sample_offset n_steps_i j \<Longrightarrow>
           out_pos_xyz (assign_normalized_ray_sample batch_size sample_offset k x y z d_x d_y d_z
                          dt inv_aabb_size b) j = out_pos_xyz b j"
    and "\<not> in_xyz_slots batch_size sample_offset n_steps_i j \<Longrightarrow>
           out_dir_xyz (assign_normalized_ray_sample batch_size sample_offset k x y z d_x d_y d_z
                          dt inv_aabb_size b) j = out_dir_xyz b j"
  using assms
  by (auto simp add: assign_normalized_ray_sample_def in_dt_slots_def in_xyz_slots_def Let_def)

lemma assign_rest:
  "same_ray_buffers b (assign_normalized_ray_sample batch_size sample_offset k x y z
     d_x d_y d_z dt inv_aabb_size b)"
  by (simp add: assign_normalized_ray_sample_def same_ray_buffers_def Let_def)

lemma same_ray_buffers_trans:
  "same_ray_buffers a b \<Longrightarrow> same_ray_buffers b c \<Longrightarrow> same_ray_buffers a c"
  by (simp add: same_ray_buffers_def)

lemma gen_loop_frame:
  "gen_loop fuel bbox grid dt_min dt_max cone_angle batch_size inv_aabb_size sample_offset
     n_steps_i s_rand ori dir idir t0 t1 k b slog = Some (t0', t1', k', b', slog') \<Longrightarrow>
   (\<not> in_dt_slots sample_offset n_steps_i j \<longrightarrow> out_dt b' j = out_dt b j)
   \<and> (\<not> in_xyz_slots batch_size sample_offset n_steps_i j \<longrightarrow>
          out_pos_xyz b' j = out_pos_xyz b j \<and> out_dir_xyz b' j = out_dir_xyz b j)"
proof (induction fuel arbitrary: t0 t1 k b slog)
  case 0
  then show ?case by simp
next
  case (Suc fuel)
  obtain o_x o_y o_z d_x d_y d_z id_x id_y id_z
    where split: "ori = (o_x, o_y, o_z)" "dir = (d_x, d_y, d_z)" "idir = (id_x, id_y, id_z)"
    by (cases ori, cases dir, cases idir) auto
  from Suc.prems(1) [unfolded split] show ?case
  proof (cases rule: gen_loop_Suc_cases)
    case finished
    then show ?thesis by simp
  next
    case exit
    note f = assign_frame [OF exit(1), where j = j]
    show ?thesis using exit(3) f by simp
  next
    case hit
    note f = assign_frame [OF hit(1), where j = j]
    show ?thesis using Suc.IH [OF hit(4) [folded split]] f by simp
  next
    case skip
    show ?thesis using Suc.IH [OF skip(4) [folded split]] .
  qed
qed

lemma gen_loop_rest:
  "gen_loop fuel bbox grid dt_min dt_max cone_angle batch_size inv_aabb_size sample_offset
     n_steps_i s_rand ori dir idir t0 t1 k b slog = Some (t0', t1', k', b', slog') \<Longrightarrow>
   same_ray_buffers b b'"
proof (induction fuel arbitrary: t0 t1 k b slog)
  case 0
  then show ?case by simp
next
  case (Suc fuel)
  obtain o_x o_y o_z d_x d_y d_z id_x id_y id_z
    where split: "ori = (o_x, o_y, o_z)" "dir = (d_x, d_y, d_z)" "idir = (id_x, id_y, id_z)"
    by (cases ori, cases dir, cases idir) auto
  from Suc.prems(1) [unfolded split] show ?case
  proof (cases rule: gen_loop_Suc_cases)
    case finished
    then show ?thesis by (simp add: same_ray_buffers_def)
  next
    case exit
    then show ?thesis using assign_rest by simp
  next
    case hit
    show ?thesis
      using Suc.IH [OF hit(4) [folded split]] assign_rest same_ray_buffers_trans by blast
  next
    case skip
    show ?thesis using Suc.IH [OF skip(4) [folded split]] .
  qed
qed


lemma generator_kernel_loop:
  assumes "i < n_rays" and "ray_alive b i"
  shows "march_and_generate_network_positions_kernel fuel n_rays batch_size bbox inv_aabb_size
           grid dt_min dt_max cone_angle random_float b i
       = (case gen_loop fuel bbox grid dt_min dt_max cone_angle batch_size inv_aabb_size
                 (ray_offset b i) (n_steps b i)
                 (\<lambda>k. random_float (unat (ray_offset b i) + unat k))
                 (ori_xyz b i, ori_xyz b (i + batch_size),
                  ori_xyz b (i + batch_size + batch_size))
                 (dir_xyz b i, dir_xyz b (i + batch_size),
                  dir_xyz b (i + batch_size + batch_size))
                 (idir_xyz b i, idir_xyz b (i + batch_size),
                  idir_xyz b (i + batch_size + batch_size))
                 (ray_t b i) (ray_t b i) 0 b [] of
            None \<Rightarrow> None
          | Some (t0', t1', n_steps_taken, b', slog) \<Rightarrow> Some (b', slog))"
  using assms
  by (auto simp add: march_and_generate_network_positions_kernel_def Let_def)



lemma generator_log_facts:
  assumes "i < n_rays" and "ray_alive b i"
    and "map_option snd
           (march_and_generate_network_positions_kernel fuel n_rays batch_size bbox inv_aabb_size
              grid dt_min dt_max cone_angle random_float b i) = Some slog"
    and "ori = (ori_xyz b i, ori_xyz b (i + batch_size), ori_xyz b (i + batch_size + batch_size))"
    and "dir = (dir_xyz b i, dir_xyz b (i + batch_size), dir_xyz b (i + batch_size + batch_size))"
  shows "length slog \<le> unat (n_steps b i)
       \<and> map fst slog = map of_nat [0..<length slog]
       \<and> (length slog < unat (n_steps b i) \<longrightarrow>
            slog \<noteq> [] \<and> \<not> in_bbox bbox ori dir (snd (last slog)))
       \<and> ((\<forall>e \<in> set slog. in_bbox bbox ori dir (snd e)) \<longrightarrow>
            length slog = unat (n_steps b i))"
proof -
  let ?idir = "(idir_xyz b i, idir_xyz b (i + batch_size),
               idir_xyz b (i + batch_size + batch_size))"
  obtain t0' t1' k' b' where loop:
    "gen_loop fuel bbox grid dt_min dt_max cone_angle batch_size inv_aabb_size
       (ray_offset b i) (n_steps b i) (\<lambda>k. random_float (unat (ray_offset b i) + unat k))
       ori dir ?idir (ray_t b i) (ray_t b i) 0 b [] = Some (t0', t1', k', b', slog)"
    using assms(3) unfolding generator_kernel_loop [OF assms(1,2)] assms(4,5)
    by (auto split: option.splits)
  have k': "k' \<le> n_steps b i" using gen_loop_count [OF loop] by simp
  have slots: "map fst slog = map of_nat [0..<unat k' + (if k' < n_steps b i then 1 else 0)]"
    using gen_loop_log [OF loop] by simp
  then have "length (map fst slog)
      = length (map (of_nat :: nat \<Rightarrow> u32) [0..<unat k' + (if k' < n_steps b i then 1 else 0)])"
    by simp
  then have len: "length slog = unat k' + (if k' < n_steps b i then 1 else 0)"
    by simp
  have le: "length slog \<le> unat (n_steps b i)"
    using len k' by (auto simp add: word_le_nat_alt word_less_nat_alt)
  have short: "length slog < unat (n_steps b i) \<Longrightarrow> k' < n_steps b i"
    using len k' by (auto simp add: word_le_nat_alt word_less_nat_alt split: if_splits)
  have full: "\<not> k' < n_steps b i \<Longrightarrow> length slog = unat (n_steps b i)"
    using len k' by (auto simp add: word_le_nat_alt word_less_nat_alt)
  show ?thesis
    using le slots len short full gen_loop_exit [OF loop]
    by (metis last_in_set)
qed




subsection \<open>Termination of the marches\<close>











subsection \<open>Compaction\<close>

lemma total_steps_mono: "r \<le> r' \<Longrightarrow> total_steps counts r \<le> total_steps counts r'"
  by (induction r') (auto simp add: le_Suc_eq)

lemma exclusive_scan_unat:
  "total_steps counts n < 2 ^ 32 \<Longrightarrow> r \<le> n \<Longrightarrow>
   unat (exclusive_scan counts r) = total_steps counts r"
proof (induction r)
  case 0
  then show ?case by simp
next
  case (Suc r)
  have "total_steps counts (Suc r) \<le> total_steps counts n"
    using Suc.prems(2) by (rule total_steps_mono)
  then have lt: "total_steps counts r + unat (counts (of_nat r)) < 2 ^ 32"
    using Suc.prems(1) by simp
  have ih: "unat (exclusive_scan counts r) = total_steps counts r"
    using Suc by simp
  have "unat (exclusive_scan counts r) + unat (counts (of_nat r)) < 2 ^ LENGTH(32)"
    using lt ih by simp
  then have "unat (exclusive_scan counts r + counts (of_nat r))
      = unat (exclusive_scan counts r) + unat (counts (of_nat r))"
    by (simp only: unat_add_lem)
  then show ?case using ih by simp
qed


lemma total_steps_unique:
  assumes "total_steps counts r \<le> m" and "m < total_steps counts (Suc r)"
    and "total_steps counts r' \<le> m" and "m < total_steps counts (Suc r')"
  shows "r = r'"
proof (rule ccontr)
  assume "r \<noteq> r'"
  then consider "Suc r \<le> r'" | "Suc r' \<le> r" by linarith
  then show False
  proof cases
    case 1
    then have "total_steps counts (Suc r) \<le> total_steps counts r'" by (rule total_steps_mono)
    then show False using assms(2,3) by linarith
  next
    case 2
    then have "total_steps counts (Suc r') \<le> total_steps counts r" by (rule total_steps_mono)
    then show False using assms(1,4) by linarith
  qed
qed

lemma word_offset_unat:
  fixes j a n :: u32
  assumes "j - a < n" and "unat a + unat n \<le> 2 ^ 32"
  shows "\<exists>k < unat n. unat j = unat a + k"
proof -
  have k: "unat (j - a) < unat n" using assms(1) by (simp add: word_less_nat_alt)
  then have "unat a + unat (j - a) < 2 ^ LENGTH(32)" using assms(2) by simp
  then have "unat (a + (j - a)) = unat a + unat (j - a)" by (simp only: unat_add_lem)
  then have "unat j = unat a + unat (j - a)" by simp
  then show ?thesis using k by blast
qed

lemma xyz_slot_unat:
  assumes "in_xyz_slots batch_size sample_offset n_steps_i j"
    and "unat sample_offset + unat n_steps_i \<le> unat batch_size"
    and "3 * unat batch_size \<le> 2 ^ 32"
  shows "\<exists>k c. k < unat n_steps_i \<and> c < 3
           \<and> unat j = unat sample_offset + k + c * unat batch_size"
proof -
  let ?B = "unat batch_size" and ?O = "unat sample_offset" and ?N = "unat n_steps_i"
  have "0 < n_steps_i"
    using assms(1) by (auto simp add: in_xyz_slots_def word_greater_zero_iff)
  then have pos: "0 < ?N" by (simp add: word_less_nat_alt)
  have a1: "unat (sample_offset + batch_size) = ?O + ?B"
  proof -
    have "?O + ?B < 2 ^ LENGTH(32)" using assms(2,3) pos by simp
    then show ?thesis by (simp only: unat_add_lem)
  qed
  have a2: "unat (sample_offset + batch_size + batch_size) = ?O + ?B + ?B"
  proof -
    have "unat (sample_offset + batch_size) + ?B < 2 ^ LENGTH(32)"
      using assms(2,3) a1 pos by simp
    then have "unat (sample_offset + batch_size + batch_size)
        = unat (sample_offset + batch_size) + ?B"
      by (simp only: unat_add_lem)
    then show ?thesis using a1 by simp
  qed
  consider "j - sample_offset < n_steps_i"
    | "j - (sample_offset + batch_size) < n_steps_i"
    | "j - (sample_offset + batch_size + batch_size) < n_steps_i"
    using assms(1) by (auto simp add: in_xyz_slots_def diff_diff_eq)
  then show ?thesis
  proof cases
    case 1
    have "?O + ?N \<le> 2 ^ 32" using assms(2,3) by simp
    from word_offset_unat [OF 1 this] obtain k where "k < ?N" "unat j = ?O + k" by blast
    then have "k < ?N \<and> (0 :: nat) < 3 \<and> unat j = ?O + k + 0 * ?B" by simp
    then show ?thesis by blast
  next
    case 2
    have "unat (sample_offset + batch_size) + ?N \<le> 2 ^ 32" using assms(2,3) a1 by simp
    from word_offset_unat [OF 2 this] obtain k where "k < ?N" "unat j = ?O + ?B + k"
      using a1 by auto
    then have "k < ?N \<and> (1 :: nat) < 3 \<and> unat j = ?O + k + 1 * ?B" by simp
    then show ?thesis by blast
  next
    case 3
    have "unat (sample_offset + batch_size + batch_size) + ?N \<le> 2 ^ 32"
      using assms(2,3) a2 by simp
    from word_offset_unat [OF 3 this] obtain k where "k < ?N" "unat j = ?O + ?B + ?B + k"
      using a2 by auto
    then have "k < ?N \<and> (2 :: nat) < 3 \<and> unat j = ?O + k + 2 * ?B" by simp
    then show ?thesis by blast
  qed
qed


lemma ray_slots_within:
  assumes "\<forall>r < unat n_rays. ray_offset b (of_nat r) = exclusive_scan (n_steps b) r"
    and "total_steps (n_steps b) (unat n_rays) < 2 ^ 32"
    and "i < n_rays"
  shows "unat (ray_offset b i) = total_steps (n_steps b) (unat i)"
    and "total_steps (n_steps b) (unat i) + unat (n_steps b i)
           = total_steps (n_steps b) (Suc (unat i))"
    and "total_steps (n_steps b) (Suc (unat i)) \<le> total_steps (n_steps b) (unat n_rays)"
proof -
  have r: "unat i < unat n_rays" using assms(3) by (simp add: word_less_nat_alt)
  then have "ray_offset b i = exclusive_scan (n_steps b) (unat i)"
    using assms(1) by fastforce
  then show "unat (ray_offset b i) = total_steps (n_steps b) (unat i)"
    using exclusive_scan_unat [OF assms(2), of "unat i"] r by simp
  show "total_steps (n_steps b) (unat i) + unat (n_steps b i)
           = total_steps (n_steps b) (Suc (unat i))"
    by simp
  show "total_steps (n_steps b) (Suc (unat i)) \<le> total_steps (n_steps b) (unat n_rays)"
    using r by (intro total_steps_mono) simp
qed

lemma slots_disjoint:
  assumes scan: "\<forall>r < unat n_rays. ray_offset b (of_nat r) = exclusive_scan (n_steps b) r"
    and cap: "total_steps (n_steps b) (unat n_rays) \<le> unat batch_size"
    and three: "3 * unat batch_size \<le> 2 ^ 32"
    and i: "i < n_rays" and i': "i' < n_rays" and ne: "i \<noteq> i'"
    and s: "in_xyz_slots batch_size (ray_offset b i) (n_steps b i) j"
    and s': "in_xyz_slots batch_size (ray_offset b i') (n_steps b i') j"
  shows False
proof -
  let ?B = "unat batch_size"
  let ?T = "total_steps (n_steps b)"
  have "?B < 2 ^ 32" using unsigned_less [of batch_size] by simp
  then have lt: "?T (unat n_rays) < 2 ^ 32" using cap by simp
  note w = ray_slots_within [OF scan lt i]
  note w' = ray_slots_within [OF scan lt i']
  have fit: "unat (ray_offset b i) + unat (n_steps b i) \<le> ?B"
    using w cap by simp
  have fit': "unat (ray_offset b i') + unat (n_steps b i') \<le> ?B"
    using w' cap by simp
  obtain k c where k: "k < unat (n_steps b i)" "c < 3"
      "unat j = ?T (unat i) + k + c * ?B"
    using xyz_slot_unat [OF s fit three] w(1) by auto
  obtain k' c' where k': "k' < unat (n_steps b i')" "c' < 3"
      "unat j = ?T (unat i') + k' + c' * ?B"
    using xyz_slot_unat [OF s' fit' three] w'(1) by auto
  have lo: "?T (unat i) + k < ?B" using k(1) w(2,3) cap by linarith
  have lo': "?T (unat i') + k' < ?B" using k'(1) w'(2,3) cap by linarith
  have "c = c'"
  proof (rule ccontr)
    assume "c \<noteq> c'"
    then consider "Suc c \<le> c'" | "Suc c' \<le> c" by linarith
    then show False
    proof cases
      case 1
      then have "Suc c * ?B \<le> c' * ?B" by (rule mult_le_mono1)
      then show False using k(3) k'(3) lo by simp
    next
      case 2
      then have "Suc c' * ?B \<le> c * ?B" by (rule mult_le_mono1)
      then show False using k(3) k'(3) lo' by simp
    qed
  qed
  then have same: "?T (unat i) + k = ?T (unat i') + k'" using k(3) k'(3) by simp
  have "unat i = unat i'"
  proof (rule total_steps_unique)
    show "?T (unat i) \<le> ?T (unat i) + k" by simp
    show "?T (unat i) + k < ?T (Suc (unat i))" using k(1) w(2) by linarith
    show "?T (unat i') \<le> ?T (unat i) + k" using same by simp
    show "?T (unat i) + k < ?T (Suc (unat i'))" using same k'(1) w'(2) by linarith
  qed
  then show False using ne by (simp add: word_unat_eq_iff)
qed

lemma generator_kernel_frame:
  assumes "i < n_rays" and "ray_alive b i"
    and "march_and_generate_network_positions_kernel fuel n_rays batch_size bbox inv_aabb_size
           grid dt_min dt_max cone_angle random_float b i = Some (b', slog)"
  shows "(\<not> in_dt_slots (ray_offset b i) (n_steps b i) j \<longrightarrow> out_dt b' j = out_dt b j)
       \<and> (\<not> in_xyz_slots batch_size (ray_offset b i) (n_steps b i) j \<longrightarrow>
            out_pos_xyz b' j = out_pos_xyz b j \<and> out_dir_xyz b' j = out_dir_xyz b j)
       \<and> same_ray_buffers b b'"
proof -
  obtain t0' t1' k' where loop:
    "gen_loop fuel bbox grid dt_min dt_max cone_angle batch_size inv_aabb_size
       (ray_offset b i) (n_steps b i) (\<lambda>k. random_float (unat (ray_offset b i) + unat k))
       (ori_xyz b i, ori_xyz b (i + batch_size), ori_xyz b (i + batch_size + batch_size))
       (dir_xyz b i, dir_xyz b (i + batch_size), dir_xyz b (i + batch_size + batch_size))
       (idir_xyz b i, idir_xyz b (i + batch_size), idir_xyz b (i + batch_size + batch_size))
       (ray_t b i) (ray_t b i) 0 b [] = Some (t0', t1', k', b', slog)"
    using assms(3) unfolding generator_kernel_loop [OF assms(1,2)]
    by (auto split: option.splits)
  show ?thesis using gen_loop_frame [OF loop] gen_loop_rest [OF loop] by simp
qed

lemma total_steps_two: "total_steps counts 2 = unat (counts 0) + unat (counts 1)"
  by (simp add: numeral_2_eq_2)

lemma two_rays_generated_run:
  "march_and_generate_network_positions_kernel 4 2 8 scene_bbox (1 / 4) scene_grid (1 / 4) 1 0
     scene_random two_rays 0 = Some (two_rays_generated, [(0, 0), (1, 0)])"
  by (simp add: march_and_generate_network_positions_kernel_def two_rays_generated_def
      two_rays_def scene_random_def blank_buffers_def scene_bbox_def scene_grid_def clamp_def
      assign_normalized_ray_sample_def gen_loop_numeral Let_def del: Suc_numeral)

text \<open>
  Claim C10, as amended. For a live ray \<open>i\<close>, every entry of the network buffers that
  the generator's thread changes has an index \<open>offset[i] + k\<close>, \<open>offset[i] + k + batch_size\<close>
  or \<open>offset[i] + k + 2 * batch_size\<close> with \<open>k < n_steps[i]\<close> (in 32-bit arithmetic),
  also when the march leaves the bounding box, and the thread emits at most \<open>n_steps[i]\<close>
  samples. If the offsets are the exclusive prefix sums of the counts, the counts add up
  to at most \<open>batch_size\<close> and \<open>3 * batch_size\<close> does not exceed \<open>2 ^ 32\<close>, then the
  indices of a different ray \<open>i'\<close> are none of ray \<open>i\<close>'s, and thread \<open>i\<close> leaves them
  as they were.
\<close>

theorem generator_writes_own_slots:
  assumes "i < n_rays" and "ray_alive b i"
    and "march_and_generate_network_positions_kernel fuel n_rays batch_size bbox inv_aabb_size
           grid dt_min dt_max cone_angle random_float b i = Some (b', slog)"
  shows "(\<forall>j. \<not> in_dt_slots (ray_offset b i) (n_steps b i) j \<longrightarrow> out_dt b' j = out_dt b j)
       \<and> (\<forall>j. \<not> in_xyz_slots batch_size (ray_offset b i) (n_steps b i) j \<longrightarrow>
                out_pos_xyz b' j = out_pos_xyz b j \<and> out_dir_xyz b' j = out_dir_xyz b j)
       \<and> length slog \<le> unat (n_steps b i)
       \<and> ((\<forall>r < unat n_rays. ray_offset b (of_nat r) = exclusive_scan (n_steps b) r) \<longrightarrow>
          total_steps (n_steps b) (unat n_rays) \<le> unat batch_size \<longrightarrow>
          3 * unat batch_size \<le> 2 ^ 32 \<longrightarrow>
          (\<forall>i' j. i' < n_rays \<longrightarrow> i' \<noteq> i \<longrightarrow>
                  in_xyz_slots batch_size (ray_offset b i') (n_steps b i') j \<longrightarrow>
                    \<not> in_xyz_slots batch_size (ray_offset b i) (n_steps b i) j
                  \<and> out_pos_xyz b' j = out_pos_xyz b j \<and> out_dir_xyz b' j = out_dir_xyz b j
                  \<and> out_dt b' j = out_dt b j))"
proof -
  note frame = generator_kernel_frame [OF assms]
  have dt_xyz: "\<And>j. in_dt_slots (ray_offset b i) (n_steps b i) j \<Longrightarrow>
                    in_xyz_slots batch_size (ray_offset b i) (n_steps b i) j"
    by (simp add: in_dt_slots_def in_xyz_slots_def)
  have "map_option snd (march_and_generate_network_positions_kernel fuel n_rays batch_size bbox
          inv_aabb_size grid dt_min dt_max cone_angle random_float b i) = Some slog"
    using assms(3) by simp
  from generator_log_facts [OF assms(1,2) this refl refl]
  have len: "length slog \<le> unat (n_steps b i)" by simp
  have other: "\<not> in_xyz_slots batch_size (ray_offset b i) (n_steps b i) j"
    if "\<forall>r < unat n_rays. ray_offset b (of_nat r) = exclusive_scan (n_steps b) r"
      and "total_steps (n_steps b) (unat n_rays) \<le> unat batch_size"
      and "3 * unat batch_size \<le> 2 ^ 32"
      and "i' < n_rays" and "i' \<noteq> i"
      and "in_xyz_slots batch_size (ray_offset b i') (n_steps b i') j" for i' j
    using slots_disjoint [OF that(1,2,3) assms(1) that(4) _ _ that(6)] that(5) by blast
  show ?thesis
    using frame len other dt_xyz by blast
qed

theorem generator_writes_own_slots_witness:
  "(0 :: u32) < 2 \<and> ray_alive two_rays 0
   \<and> march_and_generate_network_positions_kernel 4 2 8 scene_bbox (1 / 4) scene_grid (1 / 4) 1 0
        scene_random two_rays 0 = Some (two_rays_generated, [(0, 0), (1, 0)])
   \<and> ray_offset two_rays 0 = exclusive_scan (n_steps two_rays) 0
   \<and> ray_offset two_rays 1 = exclusive_scan (n_steps two_rays) 1
   \<and> total_steps (n_steps two_rays) 2 = 3 \<and> 3 * unat (8 :: u32) \<le> 2 ^ 32
   \<and> in_xyz_slots 8 (ray_offset two_rays 1) (n_steps two_rays 1) 10
   \<and> \<not> in_xyz_slots 8 (ray_offset two_rays 0) (n_steps two_rays 0) 10
   \<and> out_pos_xyz two_rays_generated 10 = out_pos_xyz two_rays 10
   \<and> out_dir_xyz two_rays_generated 10 = out_dir_xyz two_rays 10
   \<and> out_dt two_rays_generated 10 = out_dt two_rays 10"
proof -
  have alive: "ray_alive two_rays 0" by (simp add: two_rays_def)
  have scan: "\<forall>r < unat (2 :: u32). ray_offset two_rays (of_nat r)
                 = exclusive_scan (n_steps two_rays) r"
    by (simp add: two_rays_def blank_buffers_def less_2_cases_iff)
  have total: "total_steps (n_steps two_rays) (unat (2 :: u32)) \<le> unat (8 :: u32)"
    and total_eq: "total_steps (n_steps two_rays) 2 = 3"
    by (simp_all add: two_rays_def blank_buffers_def total_steps_two)
  have three: "3 * unat (8 :: u32) \<le> 2 ^ 32" by simp
  have slot: "in_xyz_slots 8 (ray_offset two_rays 1) (n_steps two_rays 1) 10"
    by (simp add: in_xyz_slots_def two_rays_def)
  have one: "(1 :: u32) < 2" "(1 :: u32) \<noteq> 0" "(0 :: u32) < 2" by simp_all
  have "\<not> in_xyz_slots 8 (ray_offset two_rays 0) (n_steps two_rays 0) 10
      \<and> out_pos_xyz two_rays_generated 10 = out_pos_xyz two_rays 10
      \<and> out_dir_xyz two_rays_generated 10 = out_dir_xyz two_rays 10
      \<and> out_dt two_rays_generated 10 = out_dt two_rays 10"
    using generator_writes_own_slots [OF one(3) alive two_rays_generated_run]
      scan total three slot one(1,2)
    by blast
  then show ?thesis
    using alive scan total_eq three slot two_rays_generated_run
    by (simp add: less_2_cases_iff)
qed

text \<open>
  Claim C10 as stated fails when the counts add up to more than \<open>batch_size\<close>: the
  prefix sums alone do not separate the rays, because the three channels of the position
  and direction buffers are \<open>batch_size\<close> apart. With stride 2, ray 0 (offset 0, 2 steps)
  writes the second coordinate of its first sample at index \<open>0 + 0 + 2\<close>, and ray 1
  (offset 2, 1 step) writes the first coordinate of its sample at index \<open>2 + 0\<close>.
\<close>

theorem shared_index_counterexample:
  "ray_alive two_rays 0 \<and> ray_alive two_rays 1
   \<and> ray_offset two_rays 0 = exclusive_scan (n_steps two_rays) 0
   \<and> ray_offset two_rays 1 = exclusive_scan (n_steps two_rays) 1
   \<and> out_pos_xyz two_rays 2 = - 1
   \<and> map_option (pos_entry 2)
        (march_and_generate_network_positions_kernel 4 2 2 scene_bbox (1 / 4) scene_grid (1 / 4) 1 0
           scene_random two_rays 0) = Some (1 / 2)
   \<and> map_option (pos_entry 2)
        (march_and_generate_network_positions_kernel 4 2 2 scene_bbox (1 / 4) scene_grid (1 / 4) 1 0
           scene_random two_rays 1) = Some 1"
  by (simp add: march_and_generate_network_positions_kernel_def pos_entry_def
      two_rays_def scene_random_def blank_buffers_def scene_bbox_def scene_grid_def clamp_def
      assign_normalized_ray_sample_def gen_loop_numeral Let_def word_le_nat_alt
      del: Suc_numeral)














end
